theory Spec2Isabelle
  imports Main
begin

section \<open>Entities\<close>

text \<open>
  The Go structs the handlers of \<^verbatim>\<open>datacenters.go\<close> and the subscribers of the
  service skeleton work on. \<^verbatim>\<open>User\<close>, \<^verbatim>\<open>Datacenter\<close> and \<^verbatim>\<open>Service\<close> share field names
  in Go; the fields of \<^verbatim>\<open>User\<close> carry the prefix \<open>u_\<close> and those of \<^verbatim>\<open>Service\<close> the
  prefix \<open>s_\<close> here. Go's \<^verbatim>\<open>int\<close> identifiers are \<open>int\<close>: no handler does arithmetic on
  them, they are only compared.
\<close>

record User =
  u_ID :: int
  u_Username :: string
  u_GroupID :: int
  u_Admin :: bool

record Datacenter =
  ID :: int
  GroupID :: int
  Name :: string
  Type :: string
  Username :: string
  Password :: string
  AccessKeyID :: string
  SecretAccessKey :: string
  VCloudURL :: string

record Service =
  s_ID :: string
  s_Name :: string
  s_GroupID :: int
  s_DatacenterID :: int

section \<open>Errors, payloads and responses\<close>

text \<open>
  \<open>ErrBadReqBody\<close>, \<open>ErrUnauthorized\<close> and \<open>ErrInternal\<close> are the gateway's named error
  values. \<open>HTTPError code msg\<close> is \<^verbatim>\<open>echo.NewHTTPError(code, msg)\<close> with a literal
  message, \<open>HTTPErrorOf code e\<close> is \<^verbatim>\<open>echo.NewHTTPError(code, e.Error())\<close>. \<open>ErrNotFound\<close>
  and \<open>ErrTimeout\<close> are what a store call answers for a missing entity and for a
  subject nobody serves.
\<close>

datatype err =
    ErrBadReqBody
  | ErrUnauthorized
  | ErrInternal
  | ErrNotFound
  | ErrTimeout
  | HTTPError nat string
  | HTTPErrorOf nat err

text \<open>
  A payload is what \<^verbatim>\<open>json.Marshal\<close> was applied to (marshalling a struct of strings
  and integers never fails, so the handlers' branches on its error are dead), or a
  literal byte string.
\<close>

datatype payload =
    DatacenterJSON Datacenter
  | DatacentersJSON "Datacenter list"
  | ServiceJSON Service
  | ServicesJSON "Service list"
  | Bytes string

text \<open>\<^verbatim>\<open>c.JSONBlob(code, body)\<close> and \<^verbatim>\<open>c.String(code, s)\<close>.\<close>

datatype response =
    JSONBlob nat payload
  | String nat string

type_synonym result = "err + response"

text \<open>
  What a handler reads from its \<^verbatim>\<open>echo.Context\<close>: the authenticated user, the integer
  \<^verbatim>\<open>strconv.Atoi\<close> yields for the path parameter \<^verbatim>\<open>datacenter\<close> (the handlers drop or
  overwrite Atoi's error, so only the integer matters), and the entity \<^verbatim>\<open>d.Map(c)\<close>
  fills from the request body (\<open>None\<close> when \<^verbatim>\<open>Map\<close> reports an error).
\<close>

record request =
  authenticatedUser :: User
  param_datacenter :: int
  mapped :: "Datacenter option"

section \<open>The store operations the handlers call\<close>

text \<open>
  The methods of \<^verbatim>\<open>Datacenter\<close> and \<^verbatim>\<open>User\<close> that reach the store are not part of the
  handlers' file. The handlers take them as a record of operations over a store
  state \<open>'st\<close>: a read answers an error or a value, \<open>Save\<close> answers its error (if any),
  the entity as the call left it and the store after the call, \<open>Delete\<close> its error and
  the store after the call.
\<close>

record 'st backend =
  FindAll :: "'st \<Rightarrow> User \<Rightarrow> err + Datacenter list"
  Datacenters :: "'st \<Rightarrow> User \<Rightarrow> err + Datacenter list"
  FindByID :: "'st \<Rightarrow> int \<Rightarrow> err + Datacenter"
  FindByName :: "'st \<Rightarrow> string \<Rightarrow> err + Datacenter"
  Save :: "'st \<Rightarrow> Datacenter \<Rightarrow> err option \<times> Datacenter \<times> 'st"
  Delete :: "'st \<Rightarrow> Datacenter \<Rightarrow> err option \<times> 'st"
  Services :: "'st \<Rightarrow> Datacenter \<Rightarrow> err + Service list"
  Validate :: "Datacenter \<Rightarrow> err option"
  Redact :: "Datacenter \<Rightarrow> Datacenter"
  Improve :: "Datacenter \<Rightarrow> Datacenter"

section \<open>The handlers of datacenters.go\<close>

text \<open>
  \<^verbatim>\<open>getDatacentersHandler\<close>: an admin lists through \<^verbatim>\<open>FindAll\<close>, everyone else through
  \<^verbatim>\<open>au.Datacenters()\<close>; every entity is redacted, then improved, and the list is
  answered with status 200.
\<close>

definition getDatacentersHandler :: "'st backend \<Rightarrow> 'st \<Rightarrow> request \<Rightarrow> result" where
  "getDatacentersHandler B st c =
     (let au = authenticatedUser c in
      case (if u_Admin au = True then FindAll B st au else Datacenters B st au) of
        Inl e \<Rightarrow> Inl e
      | Inr datacenters \<Rightarrow>
          Inr (JSONBlob 200 (DatacentersJSON (map (\<lambda>d. Improve B (Redact B d)) datacenters))))"

text \<open>\<^verbatim>\<open>getDatacenterHandler\<close>: looks the entity up by the path parameter and answers it.\<close>

definition getDatacenterHandler :: "'st backend \<Rightarrow> 'st \<Rightarrow> request \<Rightarrow> result" where
  "getDatacenterHandler B st c =
     (case FindByID B st (param_datacenter c) of
        Inl e \<Rightarrow> Inl e
      | Inr d \<Rightarrow> Inr (JSONBlob 200 (DatacenterJSON d)))"

text \<open>
  \<^verbatim>\<open>createDatacenterHandler\<close>. A user of group 0 is answered a 401 body (the handler
  itself returns no error there). The error of \<^verbatim>\<open>d.Save()\<close> is only logged: the handler
  goes on to marshal \<open>d\<close> as the call left it.
\<close>

definition createDatacenterHandler :: "'st backend \<Rightarrow> 'st \<Rightarrow> request \<Rightarrow> result \<times> 'st" where
  "createDatacenterHandler B st c =
     (let au = authenticatedUser c in
      if u_GroupID au = 0 then
        (Inr (JSONBlob 401 (Bytes (''Current user does not belong to any group.'' @ [CHR 0x0A] @
           ''Please assign the user to a group before performing this action''))), st)
      else
        case mapped c of
          None \<Rightarrow> (Inl ErrBadReqBody, st)
        | Some d0 \<Rightarrow>
            (case Validate B d0 of
               Some e \<Rightarrow> (Inl (HTTPErrorOf 400 e), st)
             | None \<Rightarrow>
                 (let d = d0\<lparr>GroupID := u_GroupID au\<rparr> in
                  case FindByName B st (Name d) of
                    Inr existing \<Rightarrow> (Inl (HTTPError 409 ''Specified datacenter already exists''), st)
                  | Inl e \<Rightarrow>
                      (case Save B st d of
                         (save_err, d', st') \<Rightarrow> (Inr (JSONBlob 200 (DatacenterJSON d')), st')))))"

text \<open>
  \<^verbatim>\<open>updateDatacenterHandler\<close>. The ownership test is written as the source has it:
  \<^verbatim>\<open>au.GroupID != au.GroupID\<close>. The four credential fields of the stored entity are
  overwritten from the request, the stored entity is saved (its error only logged), and
  the request entity \<open>d\<close> is what the handler marshals.
\<close>

definition updateDatacenterHandler :: "'st backend \<Rightarrow> 'st \<Rightarrow> request \<Rightarrow> result \<times> 'st" where
  "updateDatacenterHandler B st c =
     (case mapped c of
        None \<Rightarrow> (Inl ErrBadReqBody, st)
      | Some d \<Rightarrow>
          (let au = authenticatedUser c in
           case FindByID B st (param_datacenter c) of
             Inl e \<Rightarrow> (Inl e, st)
           | Inr existing \<Rightarrow>
               if u_GroupID au \<noteq> u_GroupID au then (Inl ErrUnauthorized, st)
               else
                 (let existing' = existing
                        \<lparr>Username := Username d,
                         Password := Password d,
                         AccessKeyID := AccessKeyID d,
                         SecretAccessKey := SecretAccessKey d\<rparr> in
                  case Save B st existing' of
                    (save_err, saved, st') \<Rightarrow> (Inr (JSONBlob 200 (DatacenterJSON d)), st'))))"

text \<open>
  \<^verbatim>\<open>deleteDatacenterHandler\<close>: lookup, ownership (\<^verbatim>\<open>au.GroupID != d.GroupID\<close>), the
  services that refer to the datacenter, then the delete.
\<close>

definition deleteDatacenterHandler :: "'st backend \<Rightarrow> 'st \<Rightarrow> request \<Rightarrow> result \<times> 'st" where
  "deleteDatacenterHandler B st c =
     (let au = authenticatedUser c in
      case FindByID B st (param_datacenter c) of
        Inl e \<Rightarrow> (Inl e, st)
      | Inr d \<Rightarrow>
          if u_GroupID au \<noteq> GroupID d then (Inl ErrUnauthorized, st)
          else
            (case Services B st d of
               Inl e \<Rightarrow> (Inl (HTTPErrorOf 500 e), st)
             | Inr ss \<Rightarrow>
                 if length ss > 0 then
                   (Inl (HTTPError 400 ''Existing services are referring to this datacenter.''), st)
                 else
                   (case Delete B st d of
                      (Some e, st') \<Rightarrow> (Inl e, st')
                    | (None, st') \<Rightarrow> (Inr (String 200 ''''), st'))))"

section \<open>The service skeleton (the subscribers on service.get, .find, .set, .del)\<close>

text \<open>
  A message carries its payload and the reply subject; a subscriber's effect is the list
  of its \<^verbatim>\<open>n.Publish(subject, payload)\<close> calls, in order.
\<close>

record Msg =
  Data :: string
  Reply :: string

type_synonym publication = "string \<times> payload"

text \<open>The package variable \<^verbatim>\<open>mockServices\<close> as the file initialises it.\<close>

definition mockServices :: "Service list" where
  "mockServices =
     [\<lparr>s_ID = ''1'', s_Name = ''test'', s_GroupID = 1, s_DatacenterID = 1\<rparr>,
      \<lparr>s_ID = ''2'', s_Name = ''test2'', s_GroupID = 2, s_DatacenterID = 3\<rparr>]"

text \<open>The literal \<^verbatim>\<open>{"error":"not found"}\<close>; \<open>CHR 0x22\<close> is the double quote.\<close>

definition not_found :: string where
  "not_found = ''{'' @ [CHR 0x22] @ ''error'' @ [CHR 0x22] @ '':'' @ [CHR 0x22] @
     ''not found'' @ [CHR 0x22] @ ''}''"

text \<open>
  The loop of the \<^verbatim>\<open>service.get\<close> subscriber over the stored services: \<open>Some\<close> of what it
  published when a branch published and returned, \<open>None\<close> when the loop ran to its end.
\<close>

fun get_loop :: "string \<Rightarrow> Service \<Rightarrow> Service list \<Rightarrow> publication list option" where
  "get_loop reply qs [] = None"
| "get_loop reply qs (service # rest) =
     (if s_GroupID qs \<noteq> 0 \<and> s_GroupID service = s_GroupID qs \<and> s_ID service = s_ID qs then
        Some [(reply, ServiceJSON service)]
      else if s_GroupID qs = 0 \<and> s_ID service = s_ID qs then
        Some [(reply, ServiceJSON service)]
      else get_loop reply qs rest)"

text \<open>
  The subscribers. \<open>unmarshal\<close> is \<^verbatim>\<open>json.Unmarshal\<close> into a zero-valued \<^verbatim>\<open>Service\<close> with
  its error dropped, as the source calls it; \<open>services\<close> is the value of \<^verbatim>\<open>mockServices\<close>
  when the message arrives.
\<close>

definition getServiceSubcriber ::
    "(string \<Rightarrow> Service) \<Rightarrow> Service list \<Rightarrow> Msg \<Rightarrow> publication list" where
  "getServiceSubcriber unmarshal services msg =
     (case (if length (Data msg) \<noteq> 0
            then get_loop (Reply msg) (unmarshal (Data msg)) services else None) of
        Some published \<Rightarrow> published
      | None \<Rightarrow> [(Reply msg, Bytes not_found)])"

definition findServiceSubcriber :: "Service list \<Rightarrow> Msg \<Rightarrow> publication list" where
  "findServiceSubcriber services msg = [(Reply msg, ServicesJSON services)]"

definition createServiceSubcriber :: "(string \<Rightarrow> Service) \<Rightarrow> Msg \<Rightarrow> publication list" where
  "createServiceSubcriber unmarshal msg =
     (let s = (unmarshal (Data msg))\<lparr>s_ID := ''3''\<rparr> in [(Reply msg, ServiceJSON s)])"

definition deleteServiceSubcriber :: "(string \<Rightarrow> Service) \<Rightarrow> Msg \<Rightarrow> publication list" where
  "deleteServiceSubcriber unmarshal msg = [(Reply msg, Bytes [])]"

text \<open>
  The spec's rule for \<^verbatim>\<open>get\<close>, in its words: with a non-zero group identifier in the
  query both the group identifier and the entity identifier must match; with a zero
  group identifier the entity identifier alone.
\<close>

definition spec_get_matches :: "Service \<Rightarrow> Service \<Rightarrow> bool" where
  "spec_get_matches qs s =
     (if s_GroupID qs \<noteq> 0 then s_GroupID s = s_GroupID qs \<and> s_ID s = s_ID qs
      else s_ID s = s_ID qs)"

section \<open>The store behind the handlers\<close>

text \<open>
  The store the gateway reaches over the bus: the stored datacenters and services, and
  the subjects that have an active subscriber.
\<close>

record store =
  st_datacenters :: "Datacenter list"
  st_services :: "Service list"
  st_subscribers :: "string list"

text \<open>
  Modelled from the spec: the call over the bus that backs every store method is not in
  the sources. A call to a subject with no active subscriber returns a Timeout error.
\<close>

definition subscribed :: "store \<Rightarrow> string \<Rightarrow> bool" where
  "subscribed st subject = (subject \<in> set (st_subscribers st))"

text \<open>
  Modelled from the spec: \<^verbatim>\<open>Datacenter.FindByID\<close> is not in the sources. A \<^verbatim>\<open>get\<close> with no
  group identifier matches by entity identifier alone, the first match wins, and no
  match is reported as not found.
\<close>

definition store_FindByID :: "store \<Rightarrow> int \<Rightarrow> err + Datacenter" where
  "store_FindByID st i =
     (if subscribed st ''datacenter.get'' then
        (case find (\<lambda>d. ID d = i) (st_datacenters st) of
           None \<Rightarrow> Inl ErrNotFound
         | Some d \<Rightarrow> Inr d)
      else Inl ErrTimeout)"

text \<open>
  Modelled from the spec: \<^verbatim>\<open>Datacenter.FindByName\<close> is not in the sources. The name lookup
  that precedes a save looks among the datacenters of all tenants.
\<close>

definition store_FindByName :: "store \<Rightarrow> string \<Rightarrow> err + Datacenter" where
  "store_FindByName st n =
     (if subscribed st ''datacenter.get'' then
        (case find (\<lambda>d. Name d = n) (st_datacenters st) of
           None \<Rightarrow> Inl ErrNotFound
         | Some d \<Rightarrow> Inr d)
      else Inl ErrTimeout)"

text \<open>
  Modelled from the spec: \<^verbatim>\<open>Datacenter.FindAll\<close> is not in the sources. \<^verbatim>\<open>find-all\<close> returns
  every stored entity, unfiltered by tenant.
\<close>

definition store_FindAll :: "store \<Rightarrow> User \<Rightarrow> err + Datacenter list" where
  "store_FindAll st au =
     (if subscribed st ''datacenter.find'' then Inr (st_datacenters st) else Inl ErrTimeout)"

text \<open>
  Modelled from the spec: \<^verbatim>\<open>User.Datacenters\<close> is not in the sources. A non-admin receives
  only the entities of their own group.
\<close>

definition store_Datacenters :: "store \<Rightarrow> User \<Rightarrow> err + Datacenter list" where
  "store_Datacenters st au =
     (if subscribed st ''datacenter.find'' then
        Inr (filter (\<lambda>d. GroupID d = u_GroupID au) (st_datacenters st))
      else Inl ErrTimeout)"

text \<open>
  Modelled from the spec: \<^verbatim>\<open>Datacenter.Save\<close> is not in the sources. Save assigns an
  identifier if the entity has none (identifier 0) and stores the entity; an entity that
  has one is mutated in place. The fresh identifier is one above the largest in use.
\<close>

definition fresh_id :: "Datacenter list \<Rightarrow> int" where
  "fresh_id ds = fold max (map ID ds) 0 + 1"

definition store_Save :: "store \<Rightarrow> Datacenter \<Rightarrow> err option \<times> Datacenter \<times> store" where
  "store_Save st d =
     (if subscribed st ''datacenter.set'' then
        (if ID d = 0 then
           (let d' = d\<lparr>ID := fresh_id (st_datacenters st)\<rparr> in
            (None, d', st\<lparr>st_datacenters := st_datacenters st @ [d']\<rparr>))
         else
           (None, d,
            st\<lparr>st_datacenters := map (\<lambda>e. if ID e = ID d then d else e) (st_datacenters st)\<rparr>))
      else (Some ErrTimeout, d, st))"

text \<open>
  Modelled from the spec: \<^verbatim>\<open>Datacenter.Delete\<close> is not in the sources. Delete removes the
  entity with the given identifier.
\<close>

definition store_Delete :: "store \<Rightarrow> Datacenter \<Rightarrow> err option \<times> store" where
  "store_Delete st d =
     (if subscribed st ''datacenter.del'' then
        (None, st\<lparr>st_datacenters := filter (\<lambda>e. ID e \<noteq> ID d) (st_datacenters st)\<rparr>)
      else (Some ErrTimeout, st))"

text \<open>
  Modelled from the spec: \<^verbatim>\<open>Datacenter.Services\<close> is not in the sources. It looks up all
  services that refer to this datacenter's identifier.
\<close>

definition store_Services :: "store \<Rightarrow> Datacenter \<Rightarrow> err + Service list" where
  "store_Services st d =
     (if subscribed st ''service.find'' then
        Inr (filter (\<lambda>s. s_DatacenterID s = ID d) (st_services st))
      else Inl ErrTimeout)"

text \<open>
  Modelled from the spec: \<^verbatim>\<open>Datacenter.Redact\<close> is not in the sources. Redaction strips the
  secret fields \<^verbatim>\<open>Password\<close>, \<^verbatim>\<open>AccessKeyID\<close> and \<^verbatim>\<open>SecretAccessKey\<close>.
\<close>

definition store_Redact :: "Datacenter \<Rightarrow> Datacenter" where
  "store_Redact d = d\<lparr>Password := [], AccessKeyID := [], SecretAccessKey := []\<rparr>"

text \<open>
  Modelled from the spec: \<^verbatim>\<open>Datacenter.Improve\<close> is not in the sources. Enrichment attaches
  derived presentation fields; the data model has none, so the nine fields stay as they
  are.
\<close>

definition store_Improve :: "Datacenter \<Rightarrow> Datacenter" where
  "store_Improve d = d"

text \<open>
  The operations over this store, as the handlers take them. Which fields
  \<^verbatim>\<open>Datacenter.Validate\<close> requires is stated nowhere: the validation \<open>V\<close> stays a parameter.
\<close>

definition store_backend :: "(Datacenter \<Rightarrow> err option) \<Rightarrow> store backend" where
  "store_backend V =
     \<lparr>FindAll = store_FindAll,
      Datacenters = store_Datacenters,
      FindByID = store_FindByID,
      FindByName = store_FindByName,
      Save = store_Save,
      Delete = store_Delete,
      Services = store_Services,
      Validate = V,
      Redact = store_Redact,
      Improve = store_Improve\<rparr>"

section \<open>Example data\<close>

text \<open>
  A store for the examples: a datacenter of group 1 and one of group 2, the two services
  of \<^verbatim>\<open>mockServices\<close> (the first refers to datacenter 1, none refers to datacenter 2), and
  every subject served.
\<close>

definition dc1 :: Datacenter where
  "dc1 = \<lparr>ID = 1, GroupID = 1, Name = ''test'', Type = ''vcloud'', Username = ''u1'',
     Password = ''p1'', AccessKeyID = ''k1'', SecretAccessKey = ''s1'', VCloudURL = ''url1''\<rparr>"

definition dc2 :: Datacenter where
  "dc2 = \<lparr>ID = 2, GroupID = 2, Name = ''test2'', Type = ''aws'', Username = ''u2'',
     Password = ''p2'', AccessKeyID = ''k2'', SecretAccessKey = ''s2'', VCloudURL = ''url2''\<rparr>"

definition mockStore :: store where
  "mockStore =
     \<lparr>st_datacenters = [dc1, dc2],
      st_services = mockServices,
      st_subscribers = [''datacenter.get'', ''datacenter.find'', ''datacenter.set'',
                        ''datacenter.del'', ''service.find'']\<rparr>"

text \<open>The same store while nobody serves \<^verbatim>\<open>datacenter.set\<close>: every save times out.\<close>

definition mockStore_no_set :: store where
  "mockStore_no_set =
     mockStore\<lparr>st_subscribers := [''datacenter.get'', ''datacenter.find'',
                                   ''datacenter.del'', ''service.find'']\<rparr>"

text \<open>The same store while nobody serves \<^verbatim>\<open>datacenter.get\<close>: every lookup times out.\<close>

definition mockStore_no_get :: store where
  "mockStore_no_get =
     mockStore\<lparr>st_subscribers := [''datacenter.find'', ''datacenter.set'',
                                   ''datacenter.del'', ''service.find'']\<rparr>"

text \<open>No validation error, whatever the entity.\<close>

definition no_validation :: "Datacenter \<Rightarrow> err option" where
  "no_validation d = None"

text \<open>Two users without admin rights, of group 1 and of group 2, and an admin.\<close>

definition alice :: User where
  "alice = \<lparr>u_ID = 1, u_Username = ''alice'', u_GroupID = 1, u_Admin = False\<rparr>"

definition bob :: User where
  "bob = \<lparr>u_ID = 2, u_Username = ''bob'', u_GroupID = 2, u_Admin = False\<rparr>"

definition root :: User where
  "root = \<lparr>u_ID = 3, u_Username = ''admin'', u_GroupID = 1, u_Admin = True\<rparr>"

text \<open>A user who belongs to no group.\<close>

definition nobody :: User where
  "nobody = \<lparr>u_ID = 4, u_Username = ''nobody'', u_GroupID = 0, u_Admin = False\<rparr>"

text \<open>A PUT body that carries the four credential fields and nothing else.\<close>

definition new_credentials :: Datacenter where
  "new_credentials = \<lparr>ID = 0, GroupID = 0, Name = [], Type = [], Username = ''x'',
     Password = ''y'', AccessKeyID = ''z'', SecretAccessKey = ''w'', VCloudURL = []\<rparr>"

text \<open>A POST body, as the handlers' test sends it: it names group 1 as its owner.\<close>

definition new_datacenter :: Datacenter where
  "new_datacenter = \<lparr>ID = 0, GroupID = 1, Name = ''new-test'', Type = ''vcloud'',
     Username = ''test'', Password = ''test'', AccessKeyID = [], SecretAccessKey = [],
     VCloudURL = ''test''\<rparr>"

text \<open>
  The spec's error class Conflict, in its words: duplicate name or referenced delete,
  status 409.
\<close>

fun is_Conflict :: "err \<Rightarrow> bool" where
  "is_Conflict (HTTPError code msg) = (code = 409)"
| "is_Conflict (HTTPErrorOf code e) = (code = 409)"
| "is_Conflict e = False"

section \<open>The service skeleton: what it answers\<close>

lemma get_loop_find:
  "get_loop reply qs services =
     map_option (\<lambda>s. [(reply, ServiceJSON s)]) (find (spec_get_matches qs) services)"
  by (induction services) (auto simp: spec_get_matches_def)

text \<open>
  C5. Every message on \<^verbatim>\<open>service.get\<close> is answered with exactly one publication, on
  the message's reply subject. For a non-empty payload decoding to the query \<open>qs\<close> the
  answer is the first stored service that matches \<open>qs\<close> by the spec's rule (group
  identifier and identifier when the query's group identifier is non-zero, identifier
  alone when it is zero); when no stored service matches, and for an empty payload, the
  answer is the sentinel \<^verbatim>\<open>{"error":"not found"}\<close>.
\<close>

theorem service_get_reply:
  "getServiceSubcriber unmarshal services msg =
     [(Reply msg,
       case (if Data msg = [] then None
             else find (spec_get_matches (unmarshal (Data msg))) services) of
         Some s \<Rightarrow> ServiceJSON s
       | None \<Rightarrow> Bytes not_found)]"
  by (simp add: getServiceSubcriber_def get_loop_find split: option.split)

theorem service_get_reply_witness:
  "getServiceSubcriber (\<lambda>data. \<lparr>s_ID = ''1'', s_Name = [], s_GroupID = 0, s_DatacenterID = 0\<rparr>)
       mockServices \<lparr>Data = ''{id:1}'', Reply = ''_INBOX.1''\<rparr>
     = [(''_INBOX.1'',
         ServiceJSON \<lparr>s_ID = ''1'', s_Name = ''test'', s_GroupID = 1, s_DatacenterID = 1\<rparr>)]
   \<and> getServiceSubcriber (\<lambda>data. \<lparr>s_ID = ''9'', s_Name = [], s_GroupID = 0, s_DatacenterID = 0\<rparr>)
       mockServices \<lparr>Data = ''{id:9}'', Reply = ''_INBOX.2''\<rparr>
     = [(''_INBOX.2'', Bytes not_found)]
   \<and> getServiceSubcriber (\<lambda>data. \<lparr>s_ID = ''1'', s_Name = [], s_GroupID = 2, s_DatacenterID = 0\<rparr>)
       mockServices \<lparr>Data = ''{group_id:2,id:1}'', Reply = ''_INBOX.3''\<rparr>
     = [(''_INBOX.3'', Bytes not_found)]
   \<and> getServiceSubcriber (\<lambda>data. \<lparr>s_ID = [], s_Name = [], s_GroupID = 0, s_DatacenterID = 0\<rparr>)
       mockServices \<lparr>Data = [], Reply = ''_INBOX.4''\<rparr>
     = [(''_INBOX.4'', Bytes not_found)]"
  using
    service_get_reply [of "\<lambda>data. \<lparr>s_ID = ''1'', s_Name = [], s_GroupID = 0, s_DatacenterID = 0\<rparr>"
      mockServices "\<lparr>Data = ''{id:1}'', Reply = ''_INBOX.1''\<rparr>"]
    service_get_reply [of "\<lambda>data. \<lparr>s_ID = ''9'', s_Name = [], s_GroupID = 0, s_DatacenterID = 0\<rparr>"
      mockServices "\<lparr>Data = ''{id:9}'', Reply = ''_INBOX.2''\<rparr>"]
    service_get_reply [of "\<lambda>data. \<lparr>s_ID = ''1'', s_Name = [], s_GroupID = 2, s_DatacenterID = 0\<rparr>"
      mockServices "\<lparr>Data = ''{group_id:2,id:1}'', Reply = ''_INBOX.3''\<rparr>"]
    service_get_reply [of "\<lambda>data. \<lparr>s_ID = [], s_Name = [], s_GroupID = 0, s_DatacenterID = 0\<rparr>"
      mockServices "\<lparr>Data = [], Reply = ''_INBOX.4''\<rparr>"]
  by (simp add: mockServices_def spec_get_matches_def)

text \<open>
  C8. Every message on \<^verbatim>\<open>service.find\<close> is answered with the whole list of stored
  services, whatever the message carries: two messages with different payloads get the
  same list.
\<close>

theorem service_find_reply:
  "findServiceSubcriber services msg = [(Reply msg, ServicesJSON services)]
   \<and> map snd (findServiceSubcriber services msg) = map snd (findServiceSubcriber services msg')"
  by (simp add: findServiceSubcriber_def)

theorem service_find_reply_witness:
  "findServiceSubcriber mockServices \<lparr>Data = ''{group_id:1}'', Reply = ''_INBOX.5''\<rparr>
     = [(''_INBOX.5'', ServicesJSON
          [\<lparr>s_ID = ''1'', s_Name = ''test'', s_GroupID = 1, s_DatacenterID = 1\<rparr>,
           \<lparr>s_ID = ''2'', s_Name = ''test2'', s_GroupID = 2, s_DatacenterID = 3\<rparr>])]"
  using service_find_reply [of mockServices "\<lparr>Data = ''{group_id:1}'', Reply = ''_INBOX.5''\<rparr>"]
  by (simp add: mockServices_def)

section \<open>The datacenter handlers: what they answer\<close>

lemmas store_defs = store_backend_def store_FindAll_def store_Datacenters_def store_FindByID_def
  store_FindByName_def store_Save_def store_Delete_def store_Services_def store_Redact_def
  store_Improve_def subscribed_def fresh_id_def

lemmas example_defs = mockStore_def mockStore_no_set_def mockStore_no_get_def nobody_def dc1_def dc2_def mockServices_def
  no_validation_def alice_def bob_def root_def new_credentials_def new_datacenter_def

lemma update_result:
  "mapped c = Some d \<Longrightarrow> FindByID B st (param_datacenter c) = Inr existing \<Longrightarrow>
   updateDatacenterHandler B st c =
     (Inr (JSONBlob 200 (DatacenterJSON d)),
      snd (snd (Save B st (existing\<lparr>Username := Username d, Password := Password d,
         AccessKeyID := AccessKeyID d, SecretAccessKey := SecretAccessKey d\<rparr>))))"
  by (simp add: updateDatacenterHandler_def split: prod.split)

lemma update_success:
  "updateDatacenterHandler B st c = (Inr r, st') \<Longrightarrow>
   \<exists>d existing. mapped c = Some d \<and> FindByID B st (param_datacenter c) = Inr existing"
  by (auto simp: updateDatacenterHandler_def Let_def split: option.splits sum.splits prod.splits)

lemma create_result:
  "u_GroupID (authenticatedUser c) \<noteq> 0 \<Longrightarrow> mapped c = Some d0 \<Longrightarrow> Validate B d0 = None \<Longrightarrow>
   FindByName B st (Name d0) = Inl e \<Longrightarrow>
   createDatacenterHandler B st c =
     (Inr (JSONBlob 200 (DatacenterJSON
        (fst (snd (Save B st (d0\<lparr>GroupID := u_GroupID (authenticatedUser c)\<rparr>)))))),
      snd (snd (Save B st (d0\<lparr>GroupID := u_GroupID (authenticatedUser c)\<rparr>))))"
  by (simp add: createDatacenterHandler_def Let_def split: prod.split)


lemma create_success:
  "createDatacenterHandler B st c = (Inr (JSONBlob 200 p), st') \<Longrightarrow>
   \<exists>d0 e. u_GroupID (authenticatedUser c) \<noteq> 0 \<and> mapped c = Some d0 \<and> Validate B d0 = None \<and>
      FindByName B st (Name d0) = Inl e"
  by (auto simp: createDatacenterHandler_def Let_def
      split: if_splits option.splits sum.splits prod.splits)

lemma delete_result:
  "FindByID B st (param_datacenter c) = Inr d \<Longrightarrow> u_GroupID (authenticatedUser c) = GroupID d \<Longrightarrow>
   Services B st d = Inr ss \<Longrightarrow>
   deleteDatacenterHandler B st c =
     (if ss \<noteq> [] then (Inl (HTTPError 400 ''Existing services are referring to this datacenter.''), st)
      else case Delete B st d of (Some e, st') \<Rightarrow> (Inl e, st') | (None, st') \<Rightarrow> (Inr (String 200 []), st'))"
  by (simp add: deleteDatacenterHandler_def Let_def)

lemma store_Save_GroupID: "GroupID (fst (snd (store_Save s d))) = GroupID d"
  by (simp add: store_Save_def Let_def)

text \<open>
  C1. The claim asks that a PUT by a caller without admin rights whose group differs from
  the stored datacenter's group fails with Unauthorized and saves nothing. The handler's
  ownership test compares the caller's group with itself, so it never fires: whenever the
  body maps and the datacenter is found, such a caller is answered 200 and the stored
  entity with the caller's credential fields is handed to \<open>Save\<close>.
\<close>

theorem update_cross_group_accepted:
  assumes "mapped c = Some d"
    and "FindByID B st (param_datacenter c) = Inr existing"
    and "u_Admin (authenticatedUser c) = False"
    and "u_GroupID (authenticatedUser c) \<noteq> GroupID existing"
  shows "updateDatacenterHandler B st c =
     (Inr (JSONBlob 200 (DatacenterJSON d)),
      snd (snd (Save B st (existing\<lparr>Username := Username d, Password := Password d,
         AccessKeyID := AccessKeyID d, SecretAccessKey := SecretAccessKey d\<rparr>))))"
  using assms(1,2) by (rule update_result)

theorem update_cross_group_accepted_witness:
  "mapped \<lparr>authenticatedUser = bob, param_datacenter = 1, mapped = Some new_credentials\<rparr>
     = Some new_credentials
   \<and> FindByID (store_backend no_validation) mockStore 1 = Inr dc1
   \<and> u_Admin bob = False
   \<and> u_GroupID bob \<noteq> GroupID dc1
   \<and> updateDatacenterHandler (store_backend no_validation) mockStore
       \<lparr>authenticatedUser = bob, param_datacenter = 1, mapped = Some new_credentials\<rparr>
     = (Inr (JSONBlob 200 (DatacenterJSON new_credentials)),
        mockStore\<lparr>st_datacenters :=
          [dc1\<lparr>Username := ''x'', Password := ''y'', AccessKeyID := ''z'',
               SecretAccessKey := ''w''\<rparr>, dc2]\<rparr>)"
proof -
  let ?c = "\<lparr>authenticatedUser = bob, param_datacenter = 1, mapped = Some new_credentials\<rparr>"
  have h1: "mapped ?c = Some new_credentials" by simp
  have h2: "FindByID (store_backend no_validation) mockStore (param_datacenter ?c) = Inr dc1"
    by (simp add: store_defs example_defs)
  have h3: "u_Admin (authenticatedUser ?c) = False" by (simp add: bob_def)
  have h4: "u_GroupID (authenticatedUser ?c) \<noteq> GroupID dc1" by (simp add: bob_def dc1_def)
  show ?thesis
    using update_cross_group_accepted [OF h1 h2 h3 h4] h2 h3 h4
    by (simp add: store_defs example_defs)
qed

text \<open>
  C7. The claim asks that a create or update whose \<open>Save\<close> fails is answered with status
  500. Both handlers only log the error of \<open>Save\<close>: a create that reaches \<open>Save\<close> and an
  update that reaches \<open>Save\<close> are answered 200 also when \<open>Save\<close> reports an error.
\<close>

theorem save_failure_answered_200:
  "(u_GroupID (authenticatedUser c) \<noteq> 0 \<and> mapped c = Some d0 \<and> Validate B d0 = None \<and>
      FindByName B st (Name d0) = Inl e \<and>
      Save B st (d0\<lparr>GroupID := u_GroupID (authenticatedUser c)\<rparr>) = (Some save_err, d', st')
    \<longrightarrow> createDatacenterHandler B st c = (Inr (JSONBlob 200 (DatacenterJSON d')), st'))
   \<and> (mapped c = Some d \<and> FindByID B st (param_datacenter c) = Inr existing \<and>
      Save B st (existing\<lparr>Username := Username d, Password := Password d,
         AccessKeyID := AccessKeyID d, SecretAccessKey := SecretAccessKey d\<rparr>)
        = (Some save_err, saved, st')
    \<longrightarrow> updateDatacenterHandler B st c = (Inr (JSONBlob 200 (DatacenterJSON d)), st'))"
  by (auto simp: create_result update_result)

theorem save_failure_answered_200_witness:
  "Save (store_backend no_validation) mockStore_no_set (new_datacenter\<lparr>GroupID := 2\<rparr>)
     = (Some ErrTimeout, new_datacenter\<lparr>GroupID := 2\<rparr>, mockStore_no_set)
   \<and> createDatacenterHandler (store_backend no_validation) mockStore_no_set
       \<lparr>authenticatedUser = bob, param_datacenter = 0, mapped = Some new_datacenter\<rparr>
     = (Inr (JSONBlob 200 (DatacenterJSON (new_datacenter\<lparr>GroupID := 2\<rparr>))), mockStore_no_set)
   \<and> Save (store_backend no_validation) mockStore_no_set
        (dc1\<lparr>Username := ''x'', Password := ''y'', AccessKeyID := ''z'', SecretAccessKey := ''w''\<rparr>)
     = (Some ErrTimeout,
        dc1\<lparr>Username := ''x'', Password := ''y'', AccessKeyID := ''z'', SecretAccessKey := ''w''\<rparr>,
        mockStore_no_set)
   \<and> updateDatacenterHandler (store_backend no_validation) mockStore_no_set
       \<lparr>authenticatedUser = alice, param_datacenter = 1, mapped = Some new_credentials\<rparr>
     = (Inr (JSONBlob 200 (DatacenterJSON new_credentials)), mockStore_no_set)"
  using save_failure_answered_200
    [of "\<lparr>authenticatedUser = bob, param_datacenter = 0, mapped = Some new_datacenter\<rparr>"
        new_datacenter "store_backend no_validation" mockStore_no_set ErrNotFound ErrTimeout
        "new_datacenter\<lparr>GroupID := 2\<rparr>" mockStore_no_set]
    save_failure_answered_200
    [of "\<lparr>authenticatedUser = alice, param_datacenter = 1, mapped = Some new_credentials\<rparr>"
        new_datacenter "store_backend no_validation" mockStore_no_set ErrNotFound ErrTimeout
        "new_datacenter\<lparr>GroupID := 2\<rparr>" mockStore_no_set new_credentials dc1
        "dc1\<lparr>Username := ''x'', Password := ''y'', AccessKeyID := ''z'', SecretAccessKey := ''w''\<rparr>"]
  by (simp add: store_defs example_defs)

text \<open>
  C9. A PUT that succeeds hands to \<open>Save\<close> the stored entity with its four credential
  fields taken from the request; the identifier, name, type, group and vCloud URL of
  what is saved are those of the stored entity (the group is not stamped again), and
  the answer does not depend on the lookup by name (no name check is made).
\<close>

theorem update_changes_credentials_only:
  assumes "updateDatacenterHandler B st c = (Inr r, st')"
  shows "\<exists>d existing merged.
      mapped c = Some d \<and> FindByID B st (param_datacenter c) = Inr existing
    \<and> merged = existing\<lparr>Username := Username d, Password := Password d,
         AccessKeyID := AccessKeyID d, SecretAccessKey := SecretAccessKey d\<rparr>
    \<and> st' = snd (snd (Save B st merged))
    \<and> ID merged = ID existing \<and> Name merged = Name existing \<and> Type merged = Type existing
    \<and> GroupID merged = GroupID existing \<and> VCloudURL merged = VCloudURL existing
    \<and> updateDatacenterHandler (B\<lparr>FindByName := f\<rparr>) st c = updateDatacenterHandler B st c"
proof -
  from update_success [OF assms] obtain d existing where
    m: "mapped c = Some d" and e: "FindByID B st (param_datacenter c) = Inr existing"
    by blast
  let ?merged = "existing\<lparr>Username := Username d, Password := Password d,
         AccessKeyID := AccessKeyID d, SecretAccessKey := SecretAccessKey d\<rparr>"
  from update_result [OF m e] assms have s: "st' = snd (snd (Save B st ?merged))"
    by simp
  have e': "FindByID (B\<lparr>FindByName := f\<rparr>) st (param_datacenter c) = Inr existing"
    using e by simp
  have "updateDatacenterHandler (B\<lparr>FindByName := f\<rparr>) st c = updateDatacenterHandler B st c"
    by (simp add: update_result [OF m e] update_result [OF m e'])
  with m e s show ?thesis by simp
qed

theorem update_changes_credentials_only_witness:
  "updateDatacenterHandler (store_backend no_validation) mockStore
       \<lparr>authenticatedUser = alice, param_datacenter = 1, mapped = Some new_credentials\<rparr>
     = (Inr (JSONBlob 200 (DatacenterJSON new_credentials)),
        mockStore\<lparr>st_datacenters :=
          [\<lparr>ID = 1, GroupID = 1, Name = ''test'', Type = ''vcloud'', Username = ''x'',
            Password = ''y'', AccessKeyID = ''z'', SecretAccessKey = ''w'', VCloudURL = ''url1''\<rparr>,
           dc2]\<rparr>)
   \<and> (\<exists>d existing merged.
        Some new_credentials = Some d \<and> store_FindByID mockStore 1 = Inr existing
      \<and> merged = existing\<lparr>Username := Username d, Password := Password d,
           AccessKeyID := AccessKeyID d, SecretAccessKey := SecretAccessKey d\<rparr>
      \<and> ID merged = ID existing \<and> Name merged = Name existing \<and> Type merged = Type existing
      \<and> GroupID merged = GroupID existing \<and> VCloudURL merged = VCloudURL existing)"
proof -
  let ?c = "\<lparr>authenticatedUser = alice, param_datacenter = 1, mapped = Some new_credentials\<rparr>"
  let ?st' = "mockStore\<lparr>st_datacenters :=
          [\<lparr>ID = 1, GroupID = 1, Name = ''test'', Type = ''vcloud'', Username = ''x'',
            Password = ''y'', AccessKeyID = ''z'', SecretAccessKey = ''w'', VCloudURL = ''url1''\<rparr>,
           dc2]\<rparr>"
  have h: "updateDatacenterHandler (store_backend no_validation) mockStore ?c
     = (Inr (JSONBlob 200 (DatacenterJSON new_credentials)), ?st')"
    by (simp add: updateDatacenterHandler_def store_defs example_defs)
  from update_changes_credentials_only [OF h, where f = "\<lambda>st n. Inl ErrNotFound"]
  obtain d existing merged where
    "mapped ?c = Some d" "FindByID (store_backend no_validation) mockStore (param_datacenter ?c) = Inr existing"
    "merged = existing\<lparr>Username := Username d, Password := Password d,
           AccessKeyID := AccessKeyID d, SecretAccessKey := SecretAccessKey d\<rparr>"
    "ID merged = ID existing" "Name merged = Name existing" "Type merged = Type existing"
    "GroupID merged = GroupID existing" "VCloudURL merged = VCloudURL existing"
    by blast
  then have "\<exists>d existing merged.
        Some new_credentials = Some d \<and> store_FindByID mockStore 1 = Inr existing
      \<and> merged = existing\<lparr>Username := Username d, Password := Password d,
           AccessKeyID := AccessKeyID d, SecretAccessKey := SecretAccessKey d\<rparr>
      \<and> ID merged = ID existing \<and> Name merged = Name existing \<and> Type merged = Type existing
      \<and> GroupID merged = GroupID existing \<and> VCloudURL merged = VCloudURL existing"
    by (simp add: store_backend_def)
  with h show ?thesis by blast
qed

text \<open>
  C10. The body of a PUT that succeeds is the entity mapped from the request, whatever
  is stored: what is saved is the stored entity with the request's credential fields,
  what is answered is the request entity, with the identifier, name, type, group and
  vCloud URL the client sent (zero values where the client sent none).
\<close>

theorem update_response_is_request_entity:
  assumes "updateDatacenterHandler B st c = (Inr r, st')"
  shows "\<exists>d existing.
      mapped c = Some d \<and> FindByID B st (param_datacenter c) = Inr existing
    \<and> r = JSONBlob 200 (DatacenterJSON d)
    \<and> st' = snd (snd (Save B st (existing\<lparr>Username := Username d, Password := Password d,
         AccessKeyID := AccessKeyID d, SecretAccessKey := SecretAccessKey d\<rparr>)))"
proof -
  from update_success [OF assms] obtain d existing where
    m: "mapped c = Some d" and e: "FindByID B st (param_datacenter c) = Inr existing"
    by blast
  from update_result [OF m e] assms m e show ?thesis by simp
qed

theorem update_response_is_request_entity_witness:
  "updateDatacenterHandler (store_backend no_validation) mockStore
       \<lparr>authenticatedUser = alice, param_datacenter = 1, mapped = Some new_credentials\<rparr>
     = (Inr (JSONBlob 200 (DatacenterJSON
          \<lparr>ID = 0, GroupID = 0, Name = [], Type = [], Username = ''x'', Password = ''y'',
           AccessKeyID = ''z'', SecretAccessKey = ''w'', VCloudURL = []\<rparr>)),
        mockStore\<lparr>st_datacenters :=
          [\<lparr>ID = 1, GroupID = 1, Name = ''test'', Type = ''vcloud'', Username = ''x'',
            Password = ''y'', AccessKeyID = ''z'', SecretAccessKey = ''w'', VCloudURL = ''url1''\<rparr>,
           dc2]\<rparr>)
   \<and> (\<exists>d existing. Some new_credentials = Some d \<and> store_FindByID mockStore 1 = Inr existing
        \<and> JSONBlob 200 (DatacenterJSON new_credentials) = JSONBlob 200 (DatacenterJSON d))"
proof -
  let ?c = "\<lparr>authenticatedUser = alice, param_datacenter = 1, mapped = Some new_credentials\<rparr>"
  let ?st' = "mockStore\<lparr>st_datacenters :=
          [\<lparr>ID = 1, GroupID = 1, Name = ''test'', Type = ''vcloud'', Username = ''x'',
            Password = ''y'', AccessKeyID = ''z'', SecretAccessKey = ''w'', VCloudURL = ''url1''\<rparr>,
           dc2]\<rparr>"
  have h: "updateDatacenterHandler (store_backend no_validation) mockStore ?c
     = (Inr (JSONBlob 200 (DatacenterJSON new_credentials)), ?st')"
    by (simp add: updateDatacenterHandler_def store_defs example_defs)
  from update_response_is_request_entity [OF h]
  have "\<exists>d existing. Some new_credentials = Some d \<and> store_FindByID mockStore 1 = Inr existing
        \<and> JSONBlob 200 (DatacenterJSON new_credentials) = JSONBlob 200 (DatacenterJSON d)"
    by (auto simp: store_backend_def)
  with h show ?thesis by (simp add: new_credentials_def)
qed

text \<open>
  C2. A creation that succeeds (answered 200) hands to \<open>Save\<close> the request entity with
  its group overwritten by the creator's group, whatever group the request named; what
  is answered is the entity as \<open>Save\<close> left it, and it carries the creator's group as
  long as \<open>Save\<close> leaves the group of an entity alone.
\<close>

theorem create_stamps_creator_group:
  assumes "createDatacenterHandler B st c = (Inr (JSONBlob 200 p), st')"
    and "\<forall>s d. GroupID (fst (snd (Save B s d))) = GroupID d"
  shows "\<exists>d0 d d'.
      mapped c = Some d0
    \<and> d = d0\<lparr>GroupID := u_GroupID (authenticatedUser c)\<rparr>
    \<and> GroupID d = u_GroupID (authenticatedUser c)
    \<and> st' = snd (snd (Save B st d))
    \<and> d' = fst (snd (Save B st d))
    \<and> p = DatacenterJSON d'
    \<and> GroupID d' = u_GroupID (authenticatedUser c)"
proof -
  from create_success [OF assms(1)] obtain d0 e where
    g: "u_GroupID (authenticatedUser c) \<noteq> 0" and m: "mapped c = Some d0"
    and v: "Validate B d0 = None" and n: "FindByName B st (Name d0) = Inl e"
    by blast
  let ?d = "d0\<lparr>GroupID := u_GroupID (authenticatedUser c)\<rparr>"
  from create_result [OF g m v n] assms(1)
  have p: "p = DatacenterJSON (fst (snd (Save B st ?d)))" and s: "st' = snd (snd (Save B st ?d))"
    by simp_all
  from assms(2) have "GroupID (fst (snd (Save B st ?d))) = u_GroupID (authenticatedUser c)"
    by simp
  with m p s show ?thesis by simp
qed

theorem create_stamps_creator_group_witness:
  "createDatacenterHandler (store_backend no_validation) mockStore
       \<lparr>authenticatedUser = bob, param_datacenter = 0, mapped = Some new_datacenter\<rparr>
     = (Inr (JSONBlob 200 (DatacenterJSON (new_datacenter\<lparr>ID := 3, GroupID := 2\<rparr>))),
        mockStore\<lparr>st_datacenters := [dc1, dc2, new_datacenter\<lparr>ID := 3, GroupID := 2\<rparr>]\<rparr>)
   \<and> (\<forall>s d. GroupID (fst (snd (Save (store_backend no_validation) s d))) = GroupID d)
   \<and> GroupID new_datacenter = 1 \<and> u_GroupID bob = 2
   \<and> (\<exists>d'. DatacenterJSON (new_datacenter\<lparr>ID := 3, GroupID := 2\<rparr>) = DatacenterJSON d'
         \<and> GroupID d' = u_GroupID bob)"
proof -
  let ?c = "\<lparr>authenticatedUser = bob, param_datacenter = 0, mapped = Some new_datacenter\<rparr>"
  have h: "createDatacenterHandler (store_backend no_validation) mockStore ?c
     = (Inr (JSONBlob 200 (DatacenterJSON (new_datacenter\<lparr>ID := 3, GroupID := 2\<rparr>))),
        mockStore\<lparr>st_datacenters := [dc1, dc2, new_datacenter\<lparr>ID := 3, GroupID := 2\<rparr>]\<rparr>)"
    by (simp add: createDatacenterHandler_def store_defs example_defs Let_def)
  have s: "\<forall>s d. GroupID (fst (snd (Save (store_backend no_validation) s d))) = GroupID d"
    by (simp add: store_backend_def store_Save_GroupID)
  from create_stamps_creator_group [OF h s]
  have "\<exists>d'. DatacenterJSON (new_datacenter\<lparr>ID := 3, GroupID := 2\<rparr>) = DatacenterJSON d'
         \<and> GroupID d' = u_GroupID bob"
    by auto
  with h s show ?thesis by (simp add: new_datacenter_def bob_def)
qed








text \<open>
  C3, as the claim states it, fails: deleting a datacenter that a service refers to is
  answered with status 400, not with the 409 of the Conflict class.
\<close>

theorem delete_referenced_not_conflict_counterexample:
  "u_GroupID alice = GroupID dc1
   \<and> store_FindByID mockStore 1 = Inr dc1
   \<and> store_Services mockStore dc1
       = Inr [\<lparr>s_ID = ''1'', s_Name = ''test'', s_GroupID = 1, s_DatacenterID = 1\<rparr>]
   \<and> deleteDatacenterHandler (store_backend no_validation) mockStore
       \<lparr>authenticatedUser = alice, param_datacenter = 1, mapped = None\<rparr>
     = (Inl (HTTPError 400 ''Existing services are referring to this datacenter.''), mockStore)
   \<and> \<not> is_Conflict (HTTPError 400 ''Existing services are referring to this datacenter.'')"
  by (simp add: deleteDatacenterHandler_def store_defs example_defs)

text \<open>
  C3, amended. For a DELETE by a caller whose group is the group of the datacenter
  found, once the lookup of the services that refer to it has answered: if there is at
  least one, the handler fails with status 400 (Existing services are referring to this
  datacenter.) and the store is left as it was; if there is none and \<open>Delete\<close> succeeds,
  the answer is 200 with an empty body and the store is the one \<open>Delete\<close> left.
\<close>

theorem delete_blocked_by_services:
  assumes "FindByID B st (param_datacenter c) = Inr d"
    and "u_GroupID (authenticatedUser c) = GroupID d"
    and "Services B st d = Inr ss"
  shows "(ss \<noteq> [] \<longrightarrow>
            deleteDatacenterHandler B st c
              = (Inl (HTTPError 400 ''Existing services are referring to this datacenter.''), st))
       \<and> (ss = [] \<longrightarrow> (\<forall>st'. Delete B st d = (None, st') \<longrightarrow>
            deleteDatacenterHandler B st c = (Inr (String 200 []), st')))"
  by (simp add: delete_result [OF assms])

theorem delete_blocked_by_services_witness:
  "store_FindByID mockStore 1 = Inr dc1 \<and> u_GroupID alice = GroupID dc1
   \<and> store_Services mockStore dc1
       = Inr [\<lparr>s_ID = ''1'', s_Name = ''test'', s_GroupID = 1, s_DatacenterID = 1\<rparr>]
   \<and> deleteDatacenterHandler (store_backend no_validation) mockStore
       \<lparr>authenticatedUser = alice, param_datacenter = 1, mapped = None\<rparr>
     = (Inl (HTTPError 400 ''Existing services are referring to this datacenter.''), mockStore)
   \<and> store_FindByID mockStore 2 = Inr dc2 \<and> u_GroupID bob = GroupID dc2
   \<and> store_Services mockStore dc2 = Inr []
   \<and> store_Delete mockStore dc2 = (None, mockStore\<lparr>st_datacenters := [dc1]\<rparr>)
   \<and> deleteDatacenterHandler (store_backend no_validation) mockStore
       \<lparr>authenticatedUser = bob, param_datacenter = 2, mapped = None\<rparr>
     = (Inr (String 200 []), mockStore\<lparr>st_datacenters := [dc1]\<rparr>)
   \<and> store_FindByID (mockStore\<lparr>st_datacenters := [dc1]\<rparr>) 2 = Inl ErrNotFound"
proof -
  let ?B = "store_backend no_validation"
  let ?c1 = "\<lparr>authenticatedUser = alice, param_datacenter = 1, mapped = None\<rparr>"
  let ?c2 = "\<lparr>authenticatedUser = bob, param_datacenter = 2, mapped = None\<rparr>"
  have f1: "FindByID ?B mockStore (param_datacenter ?c1) = Inr dc1"
    and f2: "FindByID ?B mockStore (param_datacenter ?c2) = Inr dc2"
    by (simp_all add: store_defs example_defs)
  have g1: "u_GroupID (authenticatedUser ?c1) = GroupID dc1"
    and g2: "u_GroupID (authenticatedUser ?c2) = GroupID dc2"
    by (simp_all add: example_defs)
  have s1: "Services ?B mockStore dc1
       = Inr [\<lparr>s_ID = ''1'', s_Name = ''test'', s_GroupID = 1, s_DatacenterID = 1\<rparr>]"
    and s2: "Services ?B mockStore dc2 = Inr []"
    by (simp_all add: store_defs example_defs)
  have d2: "Delete ?B mockStore dc2 = (None, mockStore\<lparr>st_datacenters := [dc1]\<rparr>)"
    by (simp add: store_defs example_defs)
  have n2: "store_FindByID (mockStore\<lparr>st_datacenters := [dc1]\<rparr>) 2 = Inl ErrNotFound"
    by (simp add: store_defs example_defs)
  from delete_blocked_by_services [OF f1 g1 s1]
  have r1: "deleteDatacenterHandler ?B mockStore ?c1
     = (Inl (HTTPError 400 ''Existing services are referring to this datacenter.''), mockStore)"
    by simp
  from delete_blocked_by_services [OF f2 g2 s2] d2
  have r2: "deleteDatacenterHandler ?B mockStore ?c2
     = (Inr (String 200 []), mockStore\<lparr>st_datacenters := [dc1]\<rparr>)"
    by simp
  from f1 f2 g1 g2 s1 s2 d2 n2 r1 r2 show ?thesis
    by (simp add: store_backend_def)
qed

lemma store_Redact_secrets:
  "Password (store_Redact d) = [] \<and> AccessKeyID (store_Redact d) = []
   \<and> SecretAccessKey (store_Redact d) = [] \<and> ID (store_Redact d) = ID d
   \<and> GroupID (store_Redact d) = GroupID d \<and> Name (store_Redact d) = Name d"
  by (simp add: store_Redact_def)

text \<open>
  C6. Over the store modelled from the spec, while \<^verbatim>\<open>datacenter.find\<close> is served: the list
  is answered 200; an admin receives every stored datacenter, a caller without admin
  rights only those of their own group; every datacenter answered has empty
  \<^verbatim>\<open>Password\<close>, \<^verbatim>\<open>AccessKeyID\<close> and \<^verbatim>\<open>SecretAccessKey\<close>.
\<close>

theorem list_scoped_and_redacted:
  assumes "subscribed st ''datacenter.find''"
  shows "\<exists>ds. getDatacentersHandler (store_backend V) st c = Inr (JSONBlob 200 (DatacentersJSON ds))
    \<and> (u_Admin (authenticatedUser c) \<longrightarrow> ds = map store_Redact (st_datacenters st))
    \<and> (\<not> u_Admin (authenticatedUser c) \<longrightarrow>
          ds = map store_Redact
                 (filter (\<lambda>d. GroupID d = u_GroupID (authenticatedUser c)) (st_datacenters st))
        \<and> (\<forall>d \<in> set ds. GroupID d = u_GroupID (authenticatedUser c)))
    \<and> (\<forall>d \<in> set ds. Password d = [] \<and> AccessKeyID d = [] \<and> SecretAccessKey d = [])"
  using assms
  by (auto simp: getDatacentersHandler_def store_backend_def store_FindAll_def
      store_Datacenters_def store_Improve_def store_Redact_secrets Let_def)

theorem list_scoped_and_redacted_witness:
  "subscribed mockStore ''datacenter.find''
   \<and> getDatacentersHandler (store_backend no_validation) mockStore
       \<lparr>authenticatedUser = root, param_datacenter = 0, mapped = None\<rparr>
     = Inr (JSONBlob 200 (DatacentersJSON
         [dc1\<lparr>Password := [], AccessKeyID := [], SecretAccessKey := []\<rparr>,
          dc2\<lparr>Password := [], AccessKeyID := [], SecretAccessKey := []\<rparr>]))
   \<and> getDatacentersHandler (store_backend no_validation) mockStore
       \<lparr>authenticatedUser = bob, param_datacenter = 0, mapped = None\<rparr>
     = Inr (JSONBlob 200 (DatacentersJSON
         [dc2\<lparr>Password := [], AccessKeyID := [], SecretAccessKey := []\<rparr>]))"
proof -
  have s: "subscribed mockStore ''datacenter.find''"
    by (simp add: subscribed_def mockStore_def)
  from list_scoped_and_redacted [OF s, of no_validation
      "\<lparr>authenticatedUser = root, param_datacenter = 0, mapped = None\<rparr>"]
  have r1: "getDatacentersHandler (store_backend no_validation) mockStore
       \<lparr>authenticatedUser = root, param_datacenter = 0, mapped = None\<rparr>
     = Inr (JSONBlob 200 (DatacentersJSON
         [dc1\<lparr>Password := [], AccessKeyID := [], SecretAccessKey := []\<rparr>,
          dc2\<lparr>Password := [], AccessKeyID := [], SecretAccessKey := []\<rparr>]))"
    by (auto simp: root_def mockStore_def store_Redact_def)
  from list_scoped_and_redacted [OF s, of no_validation
      "\<lparr>authenticatedUser = bob, param_datacenter = 0, mapped = None\<rparr>"]
  have r2: "getDatacentersHandler (store_backend no_validation) mockStore
       \<lparr>authenticatedUser = bob, param_datacenter = 0, mapped = None\<rparr>
     = Inr (JSONBlob 200 (DatacentersJSON
         [dc2\<lparr>Password := [], AccessKeyID := [], SecretAccessKey := []\<rparr>]))"
    by (auto simp: bob_def mockStore_def store_Redact_def dc1_def dc2_def)
  from s r1 r2 show ?thesis by simp
qed

end
